theory Spec2Isabelle
  imports Complex_Main
begin

section \<open>Schematic components of lcapy (\<^verbatim>\<open>lcapy/schemcpts.py\<close>)\<close>

text \<open>
  A shallow embedding of the component classes of \<^verbatim>\<open>schemcpts.py\<close>. Every Python
  exception is a value of \<open>error\<close>, and a method that can raise returns \<open>error + 'a\<close>
  with \<open>Inl\<close> for the exception. The first five constructors are the exceptions the
  module can raise; \<open>ConfigurationError\<close> and \<open>ReferenceError\<close> are the two names the
  prose specification uses, and no path of the module raises either of them.
\<close>

datatype error =
    KeyError | ValueError | IndexError | NotImplementedError | AttributeError
  | ConfigurationError | ReferenceError

subsection \<open>Python helpers\<close>

text \<open>
  The options of a component are a Python \<^verbatim>\<open>dict\<close> from strings to strings. The order
  of \<^verbatim>\<open>items()\<close> matters for the emitted text, so the dict is an association list with
  distinct keys in insertion order: \<^verbatim>\<open>d[k]\<close> is \<open>dict_get\<close>, \<^verbatim>\<open>k in d\<close> is \<open>dict_in\<close>,
  \<^verbatim>\<open>d.pop(k)\<close> removes the key, and \<^verbatim>\<open>d[k] = v\<close> overwrites in place or appends.
\<close>

type_synonym pydict = "(string \<times> string) list"

definition dict_in :: "string \<Rightarrow> pydict \<Rightarrow> bool" where
  "dict_in k d = (map_of d k \<noteq> None)"

definition dict_get :: "pydict \<Rightarrow> string \<Rightarrow> error + string" where
  "dict_get d k = (case map_of d k of None \<Rightarrow> Inl KeyError | Some v \<Rightarrow> Inr v)"

fun dict_del :: "string \<Rightarrow> pydict \<Rightarrow> pydict" where
  "dict_del k [] = []"
| "dict_del k ((k', v) # d) = (if k' = k then dict_del k d else (k', v) # dict_del k d)"

fun dict_set :: "string \<Rightarrow> string \<Rightarrow> pydict \<Rightarrow> pydict" where
  "dict_set k v [] = [(k, v)]"
| "dict_set k v ((k', v') # d) = (if k' = k then (k, v) # d else (k', v') # dict_set k v d)"

text \<open>\<^verbatim>\<open>if old in d: d[new] = d.pop(old)\<close>, the rewrite that \<^verbatim>\<open>OnePort.draw\<close> applies.\<close>

definition dict_rename :: "string \<Rightarrow> string \<Rightarrow> pydict \<Rightarrow> pydict" where
  "dict_rename old new d =
     (case map_of d old of None \<Rightarrow> d | Some v \<Rightarrow> dict_set new v (dict_del old d))"

text \<open>\<^verbatim>\<open>','.join(xs)\<close>.\<close>

fun join_comma :: "string list \<Rightarrow> string" where
  "join_comma [] = []"
| "join_comma [x] = x"
| "join_comma (x # y # ys) = x @ '','' @ join_comma (y # ys)"

text \<open>\<^verbatim>\<open>str(n)\<close> of a Python integer: its decimal digits, with a sign when negative.\<close>

definition digit_char :: "nat \<Rightarrow> char" where
  "digit_char d = char_of (48 + d)"

fun str_nat :: "nat \<Rightarrow> string" where
  "str_nat n = (if n < 10 then [digit_char n] else str_nat (n div 10) @ [digit_char (n mod 10)])"

declare str_nat.simps [simp del]

definition str_int :: "int \<Rightarrow> string" where
  "str_int i = (if i < 0 then CHR ''-'' # str_nat (nat (- i)) else str_nat (nat i))"

subsection \<open>What the module takes from outside\<close>

text \<open>
  The module calls functions it does not define. They are the fields of \<open>ext\<close>, and every
  result below holds for every choice of them:
  \<^item> \<open>float_of\<close> is Python's \<^verbatim>\<open>float(v)\<close> on an option value, \<open>None\<close> when it raises
    \<^verbatim>\<open>ValueError\<close>;
  \<^item> \<open>np_cos\<close> and \<open>np_sin\<close> are \<^verbatim>\<open>np.cos(angle / 180.0 * np.pi)\<close> and the like, as
    functions of the angle in degrees;
  \<^item> \<open>format_label\<close> is \<^verbatim>\<open>lcapy.latex.format_label\<close>.
  Numbers are rationals: a decimal literal of the source is the rational it denotes, and
  sums and products are exact.
\<close>

record ext =
  float_of :: "string \<Rightarrow> rat option"
  np_cos :: "rat \<Rightarrow> rat"
  np_sin :: "rat \<Rightarrow> rat"
  format_label :: "string \<Rightarrow> string"

subsection \<open>Classes\<close>

text \<open>
  The classes written out in the module. A class made by \<^verbatim>\<open>defcpt\<close> has one of them as
  its nearest written-out ancestor, which decides every method; the class itself adds a
  name and, when \<^verbatim>\<open>defcpt\<close> is given one, the attribute \<^verbatim>\<open>tikz_cpt\<close>.
\<close>

datatype family =
    Cpt | Transistor | JFET | MOSFET | TwoPort | TF1 | TF | K | OnePort | VCS | CCS
  | Opamp | FDOpamp | SPDT | Logic | Wire

record pyclass =
  cls_name :: string
  cls_family :: family
  cls_tikz :: "string option"

definition written :: "string \<Rightarrow> family \<Rightarrow> pyclass" where
  "written n f = \<lparr>cls_name = n, cls_family = f, cls_tikz = None\<rparr>"

definition defcpt :: "string \<Rightarrow> family \<Rightarrow> string option \<Rightarrow> pyclass" where
  "defcpt n f t = \<lparr>cls_name = n, cls_family = f, cls_tikz = t\<rparr>"

text \<open>The classes a name can resolve to in \<^verbatim>\<open>make\<close>: the module's attribute first, the
  registry \<^verbatim>\<open>classes\<close> second (so the registered \<^verbatim>\<open>TF\<close> is shadowed by the class \<^verbatim>\<open>TF\<close>).\<close>

definition module_classes :: "pyclass list" where
  "module_classes =
     [written ''Cpt'' Cpt, written ''Transistor'' Transistor, written ''JFET'' JFET,
      written ''MOSFET'' MOSFET, written ''TwoPort'' TwoPort, written ''TF1'' TF1,
      written ''TF'' TF, written ''K'' K, written ''OnePort'' OnePort, written ''VCS'' VCS,
      written ''CCS'' CCS, written ''Opamp'' Opamp, written ''FDOpamp'' FDOpamp,
      written ''SPDT'' SPDT, written ''Logic'' Logic, written ''Wire'' Wire]"

definition classes :: "pyclass list" where
  "classes =
     [defcpt ''C'' OnePort (Some ''C''),
      defcpt ''D'' OnePort (Some ''D''),
      defcpt ''Dled'' OnePort (Some ''leD''),
      defcpt ''Dphoto'' OnePort (Some ''pD''),
      defcpt ''Dschottky'' OnePort (Some ''zD''),
      defcpt ''Dtunnel'' OnePort (Some ''tD''),
      defcpt ''Dzener'' OnePort (Some ''zD''),
      defcpt ''E'' VCS (Some ''american controlled voltage source''),
      defcpt ''Eopamp'' Opamp None,
      defcpt ''Efdopamp'' FDOpamp None,
      defcpt ''F'' VCS (Some ''american controlled current source''),
      defcpt ''G'' CCS (Some ''american controlled current source''),
      defcpt ''H'' CCS (Some ''american controlled voltage source''),
      defcpt ''I'' OnePort (Some ''I''),
      defcpt ''sI'' OnePort (Some ''I''),
      defcpt ''Isin'' OnePort (Some ''sI''),
      defcpt ''Idc'' OnePort (Some ''I''),
      defcpt ''Iac'' OnePort (Some ''sI''),
      defcpt ''J'' JFET (Some ''njfet''),
      defcpt ''Jnjf'' JFET (Some ''njfet''),
      defcpt ''Jpjf'' JFET (Some ''pjfet''),
      defcpt ''L'' OnePort (Some ''L''),
      defcpt ''M'' MOSFET (Some ''nmos''),
      defcpt ''Mnmos'' MOSFET (Some ''nmos''),
      defcpt ''Mpmos'' MOSFET (Some ''pmos''),
      defcpt ''O'' OnePort (Some ''open''),
      defcpt ''P'' OnePort (Some ''open''),
      defcpt ''Q'' Transistor (Some ''npn''),
      defcpt ''Qpnp'' Transistor (Some ''pnp''),
      defcpt ''Qnpn'' Transistor (Some ''npn''),
      defcpt ''R'' OnePort (Some ''R''),
      defcpt ''SW'' OnePort (Some ''closing switch''),
      defcpt ''SWno'' OnePort (Some ''closing switch''),
      defcpt ''SWnc'' OnePort (Some ''opening switch''),
      defcpt ''SWpush'' OnePort (Some ''push button''),
      defcpt ''SWspdt'' SPDT (Some ''spdt''),
      defcpt ''TF'' TwoPort (Some ''transformer''),
      defcpt ''TP'' TwoPort (Some ''''),
      defcpt ''Ubuffer'' Logic (Some ''buffer''),
      defcpt ''Uinverter'' Logic (Some ''american not port''),
      defcpt ''V'' OnePort (Some ''V''),
      defcpt ''sV'' OnePort (Some ''V''),
      defcpt ''Vsin'' OnePort (Some ''sV''),
      defcpt ''Vdc'' OnePort (Some ''V''),
      defcpt ''Vstep'' OnePort (Some ''V''),
      defcpt ''Vac'' OnePort (Some ''sV''),
      defcpt ''W'' Wire (Some ''short''),
      defcpt ''Y'' OnePort (Some ''european resistor''),
      defcpt ''Z'' OnePort (Some ''european resistor'')]"

definition all_classes :: "pyclass list" where
  "all_classes = module_classes @ filter (\<lambda>c. cls_name c \<noteq> ''TF'') classes"

subsection \<open>Components and the schematic that owns them\<close>

text \<open>
  The attributes \<^verbatim>\<open>__init__\<close> sets, with \<^verbatim>\<open>type\<close> and \<^verbatim>\<open>id\<close> renamed \<open>cpt_type\<close> and
  \<open>cpt_id\<close>. \<open>cls\<close> is the object's class. \<open>Lname1\<close> and \<open>Lname2\<close> are set by
  \<^verbatim>\<open>K.__init__\<close> only. \<open>id_label\<close> and \<open>value_label\<close> are assigned by the schematic after
  construction (\<open>None\<close> until then), and \<open>tcoords_memo\<close> is the attribute \<^verbatim>\<open>_tcoords\<close>.
  The attribute \<^verbatim>\<open>sch\<close> is not a field: the owning schematic (\<open>None\<close> for Python's
  \<^verbatim>\<open>None\<close>) is passed to every method that reads it.
\<close>

record cpt =
  cls :: pyclass
  cpt_type :: string
  cpt_id :: string
  net :: string
  opts_string :: string
  nodes :: "string list"
  name :: string
  args :: "string list"
  classname :: string
  opts :: pydict
  Lname1 :: "string option"
  Lname2 :: "string option"
  id_label :: "string option"
  value_label :: "string option"
  tcoords_memo :: "(rat \<times> rat) list option"

record node =
  port :: bool
  visible :: "bool \<Rightarrow> bool"

record sch =
  anon_count :: "string \<rightharpoonup> int"
  elements :: "string \<rightharpoonup> cpt"
  sch_nodes :: "string \<rightharpoonup> node"

subsection \<open>Construction\<close>

text \<open>\<^verbatim>\<open>Cpt.anon\<close> (lines 28 to 34): the counter of the type is created at 0 when missing,
  incremented, and its decimal text returned.\<close>

definition anon :: "sch \<Rightarrow> string \<Rightarrow> string \<times> sch" where
  "anon s t =
     (let n = (case anon_count s t of None \<Rightarrow> 0 | Some k \<Rightarrow> k) + 1
      in (str_int n, s\<lparr>anon_count := (anon_count s)(t \<mapsto> n)\<rparr>))"

text \<open>\<^verbatim>\<open>Cpt.__init__\<close> (lines 36 to 58). \<^verbatim>\<open>self.id\<close> is assigned before the test for the
  empty id, so it keeps the argument; the generated id goes into the name only.\<close>

definition Cpt_init ::
  "pyclass \<Rightarrow> sch option \<Rightarrow> string \<Rightarrow> string \<Rightarrow> string \<Rightarrow> string \<Rightarrow> string list
     \<Rightarrow> string list \<Rightarrow> cpt \<times> sch option" where
  "Cpt_init k S ty cid str ostr nds as =
     (let (cid', S') =
            (if cid = [] then
               (case S of
                  None \<Rightarrow> (cid, S)
                | Some s \<Rightarrow> (let (a, s') = anon s ty in (CHR ''@'' # a, Some s')))
             else (cid, S))
      in (\<lparr>cls = k, cpt_type = ty, cpt_id = cid,
           net = takeWhile (\<lambda>c. c \<noteq> CHR '';'') str,
           opts_string = ostr, nodes = nds, name = ty @ cid', args = as,
           classname = cls_name k, opts = [],
           Lname1 = None, Lname2 = None, id_label = None, value_label = None,
           tcoords_memo = None\<rparr>, S'))"

text \<open>\<^verbatim>\<open>K.__init__\<close> (lines 441 to 445): the first two positional arguments are the names
  of the inductors; \<^verbatim>\<open>args[0]\<close> or \<^verbatim>\<open>args[1]\<close> raises \<^verbatim>\<open>IndexError\<close> when missing.\<close>

definition K_init ::
  "pyclass \<Rightarrow> sch option \<Rightarrow> string \<Rightarrow> string \<Rightarrow> string \<Rightarrow> string \<Rightarrow> string list
     \<Rightarrow> string list \<Rightarrow> error + cpt \<times> sch option" where
  "K_init k S ty cid str ostr nds as =
     (case as of
        a0 # a1 # rest \<Rightarrow>
          (let (c, S') = Cpt_init k S ty cid str ostr nds rest
           in Inr (c\<lparr>Lname1 := Some a0, Lname2 := Some a1\<rparr>, S'))
      | _ \<Rightarrow> Inl IndexError)"

subsection \<open>Orientation, angle and rotation matrix\<close>

text \<open>The properties \<^verbatim>\<open>down\<close>, \<^verbatim>\<open>up\<close>, \<^verbatim>\<open>left\<close>, \<^verbatim>\<open>right\<close>, \<^verbatim>\<open>horizontal\<close>, \<^verbatim>\<open>vertical\<close>
  (lines 79 to 101) read \<^verbatim>\<open>self.opts['dir']\<close>, which raises \<^verbatim>\<open>KeyError\<close> when absent.\<close>

definition dir_is :: "cpt \<Rightarrow> string list \<Rightarrow> error + bool" where
  "dir_is c vs = (case dict_get (opts c) ''dir'' of Inl e \<Rightarrow> Inl e | Inr d \<Rightarrow> Inr (d \<in> set vs))"

definition down :: "cpt \<Rightarrow> error + bool" where "down c = dir_is c [''down'']"
definition up :: "cpt \<Rightarrow> error + bool" where "up c = dir_is c [''up'']"
definition left :: "cpt \<Rightarrow> error + bool" where "left c = dir_is c [''left'']"
definition right :: "cpt \<Rightarrow> error + bool" where "right c = dir_is c [''right'']"
definition horizontal :: "cpt \<Rightarrow> error + bool" where "horizontal c = dir_is c [''left'', ''right'']"
definition vertical :: "cpt \<Rightarrow> error + bool" where "vertical c = dir_is c [''left'', ''down'']"

definition mirror :: "cpt \<Rightarrow> bool" where "mirror c = dict_in ''mirror'' (opts c)"
definition variable :: "cpt \<Rightarrow> bool" where "variable c = dict_in ''variable'' (opts c)"

text \<open>\<^verbatim>\<open>size\<close> and \<^verbatim>\<open>scale\<close> (lines 69 to 77): \<^verbatim>\<open>float(self.opts.get(key, 1.0))\<close>.\<close>

definition opt_float :: "ext \<Rightarrow> cpt \<Rightarrow> string \<Rightarrow> error + rat" where
  "opt_float X c k =
     (case map_of (opts c) k of
        None \<Rightarrow> Inr 1
      | Some v \<Rightarrow> (case float_of X v of None \<Rightarrow> Inl ValueError | Some r \<Rightarrow> Inr r))"

definition scale :: "ext \<Rightarrow> cpt \<Rightarrow> error + rat" where "scale X c = opt_float X c ''scale''"

text \<open>\<^verbatim>\<open>angle\<close> (lines 107 to 123). The chain tests \<^verbatim>\<open>right\<close> first, so a missing \<^verbatim>\<open>dir\<close>
  is a \<^verbatim>\<open>KeyError\<close> there; a value that is none of the four reaches the \<^verbatim>\<open>else\<close> and is a
  \<^verbatim>\<open>ValueError\<close>. The option \<^verbatim>\<open>rotate\<close> is added as a float.\<close>

definition angle :: "ext \<Rightarrow> cpt \<Rightarrow> error + rat" where
  "angle X c =
     (case dict_get (opts c) ''dir'' of
        Inl e \<Rightarrow> Inl e
      | Inr d \<Rightarrow>
          (let base =
                 (if d = ''right'' then Inr 0
                  else if d = ''down'' then Inr (- 90)
                  else if d = ''left'' then Inr 180
                  else if d = ''up'' then Inr 90
                  else Inl ValueError)
           in case base of
                Inl e \<Rightarrow> Inl e
              | Inr a \<Rightarrow>
                  (case map_of (opts c) ''rotate'' of
                     None \<Rightarrow> Inr a
                   | Some v \<Rightarrow>
                       (case float_of X v of
                          None \<Rightarrow> Inl ValueError
                        | Some r \<Rightarrow> Inr (a + r)))))"

text \<open>\<^verbatim>\<open>R\<close> (lines 125 to 140): the table \<^verbatim>\<open>Rdict\<close> for the five listed angles, the
  trigonometric matrix otherwise. A matrix is the pair of its rows.\<close>

type_synonym matrix = "(rat \<times> rat) \<times> (rat \<times> rat)"

definition Rdict :: "(rat \<times> matrix) list" where
  "Rdict =
     [(0, ((1, 0), (0, 1))),
      (90, ((0, 1), (- 1, 0))),
      (180, ((- 1, 0), (0, - 1))),
      (- 180, ((- 1, 0), (0, - 1))),
      (- 90, ((0, - 1), (1, 0)))]"

definition R :: "ext \<Rightarrow> cpt \<Rightarrow> error + matrix" where
  "R X c =
     (case angle X c of
        Inl e \<Rightarrow> Inl e
      | Inr a \<Rightarrow>
          (case map_of Rdict a of
             Some m \<Rightarrow> Inr m
           | None \<Rightarrow> Inr ((np_cos X a, np_sin X a), (- np_sin X a, np_cos X a))))"

subsection \<open>Nodes and local coordinates\<close>

text \<open>\<^verbatim>\<open>vnodes\<close>: the base class returns \<^verbatim>\<open>nodes\<close> (line 149); \<^verbatim>\<open>VCS\<close> returns the slice
  \<^verbatim>\<open>nodes[0:2]\<close> (line 549); \<^verbatim>\<open>Opamp\<close> returns \<^verbatim>\<open>(nodes[0], ) + nodes[2:]\<close> (line 564);
  \<^verbatim>\<open>Wire\<close> returns \<^verbatim>\<open>(nodes[0], )\<close> when one of the three implicit options is set
  (lines 684 to 686). \<^verbatim>\<open>nodes[0]\<close> raises \<^verbatim>\<open>IndexError\<close> on an empty sequence.\<close>

definition implicit_wire :: "cpt \<Rightarrow> bool" where
  "implicit_wire c =
     (dict_in ''implicit'' (opts c) \<or> dict_in ''ground'' (opts c) \<or> dict_in ''sground'' (opts c))"

definition vnodes :: "cpt \<Rightarrow> error + string list" where
  "vnodes c =
     (case cls_family (cls c) of
        VCS \<Rightarrow> Inr (take 2 (nodes c))
      | Opamp \<Rightarrow>
          (case nodes c of [] \<Rightarrow> Inl IndexError | n # ns \<Rightarrow> Inr (n # drop 1 ns))
      | Wire \<Rightarrow>
          (if implicit_wire c
           then (case nodes c of [] \<Rightarrow> Inl IndexError | n # ns \<Rightarrow> Inr [n])
           else Inr (nodes c))
      | _ \<Rightarrow> Inr (nodes c))"

text \<open>\<^verbatim>\<open>dnodes\<close>: \<^verbatim>\<open>vnodes\<close> (line 154), except for \<^verbatim>\<open>K\<close> (lines 448 to 453), which looks
  the two inductors up in \<^verbatim>\<open>self.sch.elements\<close> and concatenates their \<^verbatim>\<open>nodes\<close>. A
  subscript on a dict raises \<^verbatim>\<open>KeyError\<close> for a missing key; \<^verbatim>\<open>self.sch\<close> being \<^verbatim>\<open>None\<close>
  raises \<^verbatim>\<open>AttributeError\<close>.\<close>

definition attr :: "'a option \<Rightarrow> error + 'a" where
  "attr a = (case a of None \<Rightarrow> Inl AttributeError | Some v \<Rightarrow> Inr v)"

definition bnd :: "error + 'a \<Rightarrow> ('a \<Rightarrow> error + 'b) \<Rightarrow> error + 'b" where
  "bnd m f = (case m of Inl e \<Rightarrow> Inl e | Inr v \<Rightarrow> f v)"

definition element :: "sch option \<Rightarrow> string \<Rightarrow> error + cpt" where
  "element S n =
     (case S of
        None \<Rightarrow> Inl AttributeError
      | Some s \<Rightarrow> (case elements s n of None \<Rightarrow> Inl KeyError | Some e \<Rightarrow> Inr e))"

definition K_dnodes :: "sch option \<Rightarrow> cpt \<Rightarrow> error + string list" where
  "K_dnodes S c =
     bnd (attr (Lname1 c)) (\<lambda>l1. bnd (element S l1) (\<lambda>L1.
     bnd (attr (Lname2 c)) (\<lambda>l2. bnd (element S l2) (\<lambda>L2.
     Inr (nodes L1 @ nodes L2)))))"

definition dnodes :: "sch option \<Rightarrow> cpt \<Rightarrow> error + string list" where
  "dnodes S c = (if cls_family (cls c) = K then K_dnodes S c else vnodes c)"

text \<open>\<^verbatim>\<open>coords\<close>, with the class attributes \<^verbatim>\<open>npos\<close> and \<^verbatim>\<open>ppos\<close> of the transistor and
  op-amp classes (lines 312, 313, 344, 345, 351, 352, 559, 560, 597, 598).\<close>

type_synonym point = "rat \<times> rat"

definition npos :: "family \<Rightarrow> point list" where
  "npos f =
     (case f of
        JFET \<Rightarrow> [(1, 1.5), (0, 0.48), (1, 0)]
      | MOSFET \<Rightarrow> [(0.85, 1.52), (- 0.25, 0.76), (0.85, 0)]
      | Opamp \<Rightarrow> [(2.4, 0), (0, - 0.5), (0, 0.5)]
      | FDOpamp \<Rightarrow> [(2.05, 1), (2.05, 0), (0, 0), (0, 1)]
      | _ \<Rightarrow> [(1, 1.5), (0, 0.75), (1, 0)])"

definition ppos :: "family \<Rightarrow> point list" where
  "ppos f =
     (case f of
        JFET \<Rightarrow> [(1, 0), (0, 1.02), (1, 1.5)]
      | MOSFET \<Rightarrow> [(0.85, 0), (- 0.25, 0.76), (0.85, 1.52)]
      | Opamp \<Rightarrow> [(2.4, 0), (0, 0.5), (0, - 0.5)]
      | FDOpamp \<Rightarrow> [(2.05, - 1), (2.05, 0), (0, 0), (0, - 1)]
      | _ \<Rightarrow> [(1, 0), (0, 0.75), (1, 1.5)])"

text \<open>\<^verbatim>\<open>Transistor.coords\<close> (lines 316 to 320), shared by \<^verbatim>\<open>JFET\<close> and \<^verbatim>\<open>MOSFET\<close>.\<close>

definition Transistor_coords :: "cpt \<Rightarrow> point list" where
  "Transistor_coords c =
     (if classname c \<in> set [''Qpnp'', ''Mpmos'', ''Jpjf'']
      then (if mirror c then npos (cls_family (cls c)) else ppos (cls_family (cls c)))
      else (if mirror c then ppos (cls_family (cls c)) else npos (cls_family (cls c))))"

text \<open>\<^verbatim>\<open>Opamp.coords\<close> (line 568) and \<^verbatim>\<open>FDOpamp.coords\<close> (line 603).\<close>

definition Opamp_coords :: "cpt \<Rightarrow> point list" where
  "Opamp_coords c = (if mirror c then npos (cls_family (cls c)) else ppos (cls_family (cls c)))"

text \<open>\<^verbatim>\<open>Wire.coords\<close> (lines 675 to 679).\<close>

definition Wire_coords :: "cpt \<Rightarrow> point list" where
  "Wire_coords c = (if implicit_wire c then [(0, 0)] else [(0, 0), (1, 0)])"

definition coords :: "cpt \<Rightarrow> error + point list" where
  "coords c =
     (case cls_family (cls c) of
        Cpt \<Rightarrow> Inl NotImplementedError
      | Transistor \<Rightarrow> Inr (Transistor_coords c)
      | JFET \<Rightarrow> Inr (Transistor_coords c)
      | MOSFET \<Rightarrow> Inr (Transistor_coords c)
      | Opamp \<Rightarrow> Inr (Opamp_coords c)
      | FDOpamp \<Rightarrow> Inr (Opamp_coords c)
      | SPDT \<Rightarrow> Inr [(0, 0.15), (0.6, 0.3), (0.6, 0)]
      | Logic \<Rightarrow> Inr [(0, 0), (0.75, 0)]
      | Wire \<Rightarrow> Inr (Wire_coords c)
      | OnePort \<Rightarrow> Inr [(0, 0), (1, 0)]
      | VCS \<Rightarrow> Inr [(0, 0), (1, 0)]
      | CCS \<Rightarrow> Inr [(0, 0), (1, 0)]
      | _ \<Rightarrow> Inr [(1, 1), (1, 0), (0, 1), (0, 0)])"





subsection \<open>Constraints handed to the layout solver\<close>













subsection \<open>Drawing a one-port\<close>

text \<open>The key tuples of the base class (lines 20 to 26).\<close>

definition voltage_keys :: "string list" where
  "voltage_keys = [''v'', ''v_'', ''v^'', ''v_>'', ''v_<'', ''v^>'', ''v^<'']"

definition current_keys :: "string list" where
  "current_keys =
     [''i'', ''i_'', ''i^'', ''i_>'', ''i_<'', ''i^>'', ''i^<'', ''i>_'', ''i<_'', ''i>^'', ''i<^'']"

definition label_keys :: "string list" where
  "label_keys = [''l'', ''l_'', ''l^'']"

definition misc_keys :: "string list" where
  "misc_keys =
     [''left'', ''right'', ''up'', ''down'', ''rotate'', ''size'', ''dir'', ''mirror'', ''scale'']"

text \<open>\<^verbatim>\<open>opts_str\<close> (lines 259 to 266) and the properties built on it (lines 268 to 291):
  the options whose key is chosen, as \<^verbatim>\<open>key=format_label(value)\<close> joined by commas.\<close>

definition fmt :: "ext \<Rightarrow> string \<times> string \<Rightarrow> string" where
  "fmt X kv = fst kv @ ''='' @ format_label X (snd kv)"

definition opts_str :: "ext \<Rightarrow> cpt \<Rightarrow> string list \<Rightarrow> string" where
  "opts_str X c choices =
     join_comma (map (fmt X) (filter (\<lambda>kv. fst kv \<in> set choices) (opts c)))"

definition voltage_str :: "ext \<Rightarrow> cpt \<Rightarrow> string" where
  "voltage_str X c = opts_str X c voltage_keys"

definition current_str :: "ext \<Rightarrow> cpt \<Rightarrow> string" where
  "current_str X c = opts_str X c current_keys"

definition label_str :: "ext \<Rightarrow> cpt \<Rightarrow> string" where
  "label_str X c = opts_str X c label_keys"

definition args_str :: "ext \<Rightarrow> cpt \<Rightarrow> string" where
  "args_str X c =
     join_comma (map (fmt X)
       (filter (\<lambda>kv. fst kv \<notin> set (voltage_keys @ current_keys @ label_keys @ misc_keys))
          (opts c)))"

text \<open>The keyword arguments of \<^verbatim>\<open>draw\<close> are a dict of flags; \<^verbatim>\<open>kwargs.get(k, True)\<close>.\<close>

type_synonym kwargs = "string \<rightharpoonup> bool"

definition kw_get :: "kwargs \<Rightarrow> string \<Rightarrow> bool" where
  "kw_get kw k = (case kw k of None \<Rightarrow> True | Some b \<Rightarrow> b)"

text \<open>\<^verbatim>\<open>_node_str\<close> (lines 212 to 228).\<close>

definition node_str :: "node \<Rightarrow> node \<Rightarrow> kwargs \<Rightarrow> string" where
  "node_str node1 node2 kw =
     (let draw_nodes = kw_get kw ''draw_nodes'';
          s1 = (if visible node1 draw_nodes then (if port node1 then ''o'' else ''*'') else []);
          s2 = s1 @ ''-'';
          s3 = (if visible node2 draw_nodes then s2 @ (if port node2 then ''o'' else ''*'') else s2)
      in if s3 = ''-'' then [] else s3)"

text \<open>\<^verbatim>\<open>self.sch.nodes[n]\<close>.\<close>

definition sch_node :: "sch option \<Rightarrow> string \<Rightarrow> error + node" where
  "sch_node S n =
     (case S of
        None \<Rightarrow> Inl AttributeError
      | Some s \<Rightarrow> (case sch_nodes s n of None \<Rightarrow> Inl KeyError | Some nd \<Rightarrow> Inr nd))"

text \<open>\<^verbatim>\<open>n1, n2 = self.dnodes\<close> raises \<^verbatim>\<open>ValueError\<close> unless there are exactly two.\<close>

definition unpack2 :: "string list \<Rightarrow> error + string \<times> string" where
  "unpack2 ns = (case ns of [a, b] \<Rightarrow> Inr (a, b) | _ \<Rightarrow> Inl ValueError)"

text \<open>Lines 474 to 493 of \<^verbatim>\<open>OnePort.draw\<close>: whether the two nodes are swapped, and the
  sides \<^verbatim>\<open>label_pos\<close> and \<^verbatim>\<open>voltage_pos\<close>. A source tests \<^verbatim>\<open>horizontal\<close>, any other type
  tests \<^verbatim>\<open>vertical\<close>.\<close>

definition sources :: "string list" where
  "sources = [''V'', ''I'', ''E'', ''F'', ''G'', ''H'']"

definition sides :: "bool \<Rightarrow> string \<times> string" where
  "sides flip = (if flip then (''^'', ''_'') else (''_'', ''^''))"

definition label_side :: "cpt \<Rightarrow> error + bool \<times> string \<times> string" where
  "label_side c =
     (if cpt_type c \<in> set sources
      then bnd (horizontal c) (\<lambda>h. Inr (True, sides h))
      else bnd (vertical c) (\<lambda>v. Inr (False, sides v)))"

text \<open>Lines 495 to 515: the five rewrites of the options, in the order of the source.\<close>

definition rewrite_opts :: "string \<Rightarrow> string \<Rightarrow> pydict \<Rightarrow> pydict" where
  "rewrite_opts label_pos voltage_pos d =
     dict_rename ''l'' (''l'' @ label_pos)
       (dict_rename ''ir'' (''i'' @ label_pos @ ''<'')
          (dict_rename ''i'' (''i'' @ label_pos)
             (dict_rename ''vr'' (''v'' @ voltage_pos @ ''>'')
                (dict_rename ''v'' (''v'' @ voltage_pos) d))))"

text \<open>Lines 523 to 533: the default label. \<^verbatim>\<open>and\<close> evaluates from the left and stops at
  the first false operand, so an attribute is read only when the flags before it hold.\<close>

definition default_label :: "bool \<Rightarrow> bool \<Rightarrow> string \<Rightarrow> cpt \<Rightarrow> error + string" where
  "default_label label_ids label_values label_pos c =
     bnd (if label_ids \<and> label_values
          then bnd (attr (id_label c)) (\<lambda>i.
                 if i \<noteq> [] then bnd (attr (value_label c)) (\<lambda>v. Inr (v \<noteq> []))
                 else Inr False)
          else Inr False)
       (\<lambda>both.
          if both
          then bnd (attr (id_label c)) (\<lambda>i. bnd (attr (value_label c)) (\<lambda>v.
                 Inr (''l'' @ label_pos @ ''={'' @ i @ ''='' @ v @ ''}'')))
          else
            bnd (if label_ids then bnd (attr (id_label c)) (\<lambda>i. Inr (i \<noteq> [])) else Inr False)
              (\<lambda>ids.
                 if ids
                 then bnd (attr (id_label c)) (\<lambda>i. Inr (''l'' @ label_pos @ ''='' @ i))
                 else
                   bnd (if label_values
                        then bnd (attr (value_label c)) (\<lambda>v. Inr (v \<noteq> []))
                        else Inr False)
                     (\<lambda>vals.
                        if vals
                        then bnd (attr (value_label c)) (\<lambda>v.
                               Inr (''l'' @ label_pos @ ''='' @ v))
                        else Inr [])))"

text \<open>Line 539: the command, with the backslash and the final newline as characters.\<close>

definition draw_cmd ::
  "string \<Rightarrow> string \<Rightarrow> string \<Rightarrow> string \<Rightarrow> string \<Rightarrow> string \<Rightarrow> string \<Rightarrow> string" where
  "draw_cmd n1 tikz lbl as ns nm n2 =
     ''  '' @ [CHR 0x5C] @ ''draw ('' @ n1 @ '') to [align=right,'' @ tikz @ '','' @ lbl @ '',''
       @ as @ '','' @ ns @ '',n='' @ nm @ ''] ('' @ n2 @ '');'' @ [CHR 0x0A]"

text \<open>The pieces of the command: the symbol (lines 470 to 472), the component after the
  rewrites, and the joined option strings (lines 520 and 521).\<close>

definition tikz_of :: "cpt \<Rightarrow> string \<Rightarrow> string" where
  "tikz_of c t = (if cpt_type c = ''R'' \<and> variable c then ''vR'' else t)"

definition rewritten :: "cpt \<Rightarrow> string \<Rightarrow> string \<Rightarrow> cpt" where
  "rewritten c label_pos voltage_pos = c\<lparr>opts := rewrite_opts label_pos voltage_pos (opts c)\<rparr>"

definition all_args :: "ext \<Rightarrow> cpt \<Rightarrow> string" where
  "all_args X c = join_comma [args_str X c, voltage_str X c, current_str X c]"

text \<open>\<^verbatim>\<open>OnePort.draw\<close> (lines 463 to 541). The result is the text or the exception, with
  the component as the call leaves it: the options stay rewritten when a later step
  raises.\<close>

definition OnePort_draw ::
  "ext \<Rightarrow> kwargs \<Rightarrow> sch option \<Rightarrow> cpt \<Rightarrow> (error + string) \<times> cpt" where
  "OnePort_draw X kw S c =
     (case bnd (dnodes S c) unpack2 of
        Inl e \<Rightarrow> (Inl e, c)
      | Inr (n1, n2) \<Rightarrow>
          (case attr (cls_tikz (cls c)) of
             Inl e \<Rightarrow> (Inl e, c)
           | Inr t \<Rightarrow>
               (case label_side c of
                  Inl e \<Rightarrow> (Inl e, c)
                | Inr (swap, label_pos, voltage_pos) \<Rightarrow>
                    (let a = (if swap then n2 else n1);
                         b = (if swap then n1 else n2);
                         c' = rewritten c label_pos voltage_pos
                     in (bnd (sch_node S a) (\<lambda>node1.
                         bnd (sch_node S b) (\<lambda>node2.
                         bnd (default_label (kw_get kw ''label_ids'')
                                (kw_get kw ''label_values'') label_pos c') (\<lambda>dl.
                         Inr (draw_cmd a (tikz_of c t)
                                (if label_str X c' \<noteq> [] then label_str X c' else dl)
                                (all_args X c') (node_str node1 node2 kw) (name c') b)))),
                         c')))))"

subsection \<open>A schematic in use\<close>




subsection \<open>Sample inputs\<close>

text \<open>An instance of the external functions in which every \<^verbatim>\<open>float\<close> fails, the
  trigonometric matrix is the identity and labels are not reformatted; and components
  built by the constructor, with their options set afterwards as the schematic does.\<close>

definition ext0 :: ext where
  "ext0 = \<lparr>float_of = (\<lambda>v. None), np_cos = (\<lambda>a. 1), np_sin = (\<lambda>a. 0), format_label = id\<rparr>"

definition sample :: "pyclass \<Rightarrow> string \<Rightarrow> string \<Rightarrow> string list \<Rightarrow> pydict \<Rightarrow> cpt" where
  "sample k ty cid nds os = (fst (Cpt_init k None ty cid [] [] nds []))\<lparr>opts := os\<rparr>"

definition R1 :: "pydict \<Rightarrow> cpt" where
  "R1 os = sample (defcpt ''R'' OnePort (Some ''R'')) ''R'' ''1'' [''1'', ''2''] os"

definition sch0 :: sch where
  "sch0 = \<lparr>anon_count = Map.empty, elements = Map.empty, sch_nodes = Map.empty\<rparr>"

definition L1 :: cpt where
  "L1 = sample (defcpt ''L'' OnePort (Some ''L'')) ''L'' ''1'' [''1'', ''2''] [(''dir'', ''down'')]"

definition L2 :: cpt where
  "L2 = sample (defcpt ''L'' OnePort (Some ''L'')) ''L'' ''2'' [''3'', ''4''] [(''dir'', ''down'')]"

definition sch_LL :: sch where
  "sch_LL = sch0\<lparr>elements := [''L1'' \<mapsto> L1, ''L2'' \<mapsto> L2]\<rparr>"

definition K1 :: cpt where
  "K1 = (fst (Cpt_init (written ''K'' K) (Some sch_LL) ''K'' ''1'' ''K1 L1 L2 0.5'' [] [] [''0.5'']))
          \<lparr>Lname1 := Some ''L1'', Lname2 := Some ''L2''\<rparr>"

definition W1 :: "pydict \<Rightarrow> cpt" where
  "W1 os = sample (defcpt ''W'' Wire (Some ''short'')) ''W'' ''1'' [''1'', ''0''] os"



definition dot_node :: node where
  "dot_node = \<lparr>port = False, visible = (\<lambda>draw_nodes. draw_nodes)\<rparr>"

definition sch_12 :: sch where
  "sch_12 = sch0\<lparr>sch_nodes := [''1'' \<mapsto> dot_node, ''2'' \<mapsto> dot_node]\<rparr>"

definition R_cls :: pyclass where
  "R_cls = defcpt ''R'' OnePort (Some ''R'')"


text \<open>The two label attributes, as the schematic assigns them after construction.\<close>

definition labelled :: "cpt \<Rightarrow> string \<Rightarrow> string \<Rightarrow> cpt" where
  "labelled c i v = c\<lparr>id_label := Some i, value_label := Some v\<rparr>"






text \<open>The newline and the backslash, for writing emitted text.\<close>

definition nl :: string where "nl = [CHR 0x0A]"

definition bs :: string where "bs = [CHR 0x5C]"





section \<open>Properties\<close>

subsection \<open>The sample classes are registered\<close>

lemma sample_classes_registered:
  "R_cls \<in> set classes" "defcpt ''L'' OnePort (Some ''L'') \<in> set classes"
  "defcpt ''V'' OnePort (Some ''V'') \<in> set classes"
  "defcpt ''W'' Wire (Some ''short'') \<in> set classes"
  "defcpt ''Q'' Transistor (Some ''npn'') \<in> set classes"
  "written ''K'' K \<in> set module_classes"
  by (simp_all add: classes_def module_classes_def R_cls_def defcpt_def written_def)

subsection \<open>Decimal text\<close>

lemma digit_char_values:
  "digit_char 0 = CHR ''0''" "digit_char 1 = CHR ''1''" "digit_char 2 = CHR ''2''"
  "digit_char 3 = CHR ''3''" "digit_char 4 = CHR ''4''" "digit_char 5 = CHR ''5''"
  "digit_char 6 = CHR ''6''" "digit_char 7 = CHR ''7''" "digit_char 8 = CHR ''8''"
  "digit_char 9 = CHR ''9''" "digit_char (Suc 0) = CHR ''1''"
  by code_simp+





subsection \<open>Angle and rotation matrix\<close>

lemma angle_no_rotate:
  "map_of (opts c) ''rotate'' = None \<Longrightarrow> map_of (opts c) ''dir'' = Some d \<Longrightarrow>
   angle X c =
     (if d = ''right'' then Inr 0 else if d = ''down'' then Inr (- 90)
      else if d = ''left'' then Inr 180 else if d = ''up'' then Inr 90 else Inl ValueError)"
  by (simp add: angle_def dict_get_def)

lemma angle_no_dir: "map_of (opts c) ''dir'' = None \<Longrightarrow> angle X c = Inl KeyError"
  by (simp add: angle_def dict_get_def)

lemma R_of_angle:
  "angle X c = Inr a \<Longrightarrow> map_of Rdict a = Some m \<Longrightarrow> R X c = Inr m"
  by (simp add: R_def)

lemma R_error: "angle X c = Inl e \<Longrightarrow> R X c = Inl e"
  by (simp add: R_def)

text \<open>The table agrees with the trigonometric matrix
  \<open>((cos t, sin t), (- sin t, cos t))\<close> of the fallback at each of its five angles, with the
  exact cosine and sine: the entry for \<open>- 90\<close> is \<open>((0, - 1), (1, 0))\<close> by the convention the
  module uses throughout.\<close>

lemma Rdict_is_rotation:
  "map_of Rdict a = Some ((p, q), (r, s)) \<Longrightarrow>
   of_rat p = cos (of_rat a / 180 * pi) \<and> of_rat q = sin (of_rat a / 180 * pi) \<and>
   of_rat r = - sin (of_rat a / 180 * pi) \<and> of_rat s = (cos (of_rat a / 180 * pi) :: real)"
  by (auto simp: Rdict_def split: if_splits)

text \<open>
  C1 (as amended). For a component whose option \<^verbatim>\<open>dir\<close> is one of right, down, left, up
  and that has no option \<^verbatim>\<open>rotate\<close>, \<^verbatim>\<open>angle\<close> is 0, -90, 180, 90 respectively, and \<^verbatim>\<open>R\<close>
  is the integer matrix of the table, whatever the floating-point cosine and sine are:
  right gives ((1,0),(0,1)), down gives ((0,-1),(1,0)), left gives ((-1,0),(0,-1)) and up
  gives ((0,1),(-1,0)).
\<close>

theorem C1_cardinal_angle_and_matrix:
  assumes "map_of (opts c) ''rotate'' = None"
  shows "(map_of (opts c) ''dir'' = Some ''right'' \<longrightarrow>
            angle X c = Inr 0 \<and> R X c = Inr ((1, 0), (0, 1))) \<and>
         (map_of (opts c) ''dir'' = Some ''down'' \<longrightarrow>
            angle X c = Inr (- 90) \<and> R X c = Inr ((0, - 1), (1, 0))) \<and>
         (map_of (opts c) ''dir'' = Some ''left'' \<longrightarrow>
            angle X c = Inr 180 \<and> R X c = Inr ((- 1, 0), (0, - 1))) \<and>
         (map_of (opts c) ''dir'' = Some ''up'' \<longrightarrow>
            angle X c = Inr 90 \<and> R X c = Inr ((0, 1), (- 1, 0)))"
proof -
  have r: "map_of (opts c) ''dir'' = Some ''right'' \<Longrightarrow> angle X c = Inr 0"
    using assms by (simp add: angle_no_rotate)
  have d: "map_of (opts c) ''dir'' = Some ''down'' \<Longrightarrow> angle X c = Inr (- 90)"
    using assms by (simp add: angle_no_rotate)
  have l: "map_of (opts c) ''dir'' = Some ''left'' \<Longrightarrow> angle X c = Inr 180"
    using assms by (simp add: angle_no_rotate)
  have u: "map_of (opts c) ''dir'' = Some ''up'' \<Longrightarrow> angle X c = Inr 90"
    using assms by (simp add: angle_no_rotate)
  show ?thesis
    using r d l u by (auto intro!: R_of_angle simp: Rdict_def)
qed

theorem C1_witness:
  "angle ext0 (R1 [(''dir'', ''down'')]) = Inr (- 90) \<and>
   R ext0 (R1 [(''dir'', ''down'')]) = Inr ((0, - 1), (1, 0))"
  using C1_cardinal_angle_and_matrix [of "R1 [(''dir'', ''down'')]" ext0]
  by (simp add: R1_def sample_def Cpt_init_def)

theorem C1_counterexample:
  "R ext0 (R1 [(''dir'', ''down'')]) \<noteq> Inr ((0, 1), (- 1, 0))"
  by (simp add: R_def angle_def dict_get_def Rdict_def R1_def sample_def Cpt_init_def)

text \<open>
  C3 (as amended). Asking for the angle or the rotation matrix of a component fails: with
  \<^verbatim>\<open>KeyError\<close> when the option \<^verbatim>\<open>dir\<close> is absent, and with \<^verbatim>\<open>ValueError\<close> when it is set
  to a value other than right, down, left, up.
\<close>

theorem C3_orientation_errors:
  "(map_of (opts c) ''dir'' = None \<longrightarrow>
      angle X c = Inl KeyError \<and> R X c = Inl KeyError) \<and>
   (map_of (opts c) ''dir'' = Some d \<and> d \<notin> set [''right'', ''down'', ''left'', ''up''] \<longrightarrow>
      angle X c = Inl ValueError \<and> R X c = Inl ValueError)"
  by (auto simp: angle_def dict_get_def R_def)

theorem C3_witness:
  "angle ext0 (R1 []) = Inl KeyError \<and> R ext0 (R1 []) = Inl KeyError \<and>
   angle ext0 (R1 [(''dir'', ''north'')]) = Inl ValueError \<and>
   R ext0 (R1 [(''dir'', ''north'')]) = Inl ValueError"
  using C3_orientation_errors [of "R1 []" ext0]
    C3_orientation_errors [of "R1 [(''dir'', ''north'')]" ext0 "''north''"]
  by (simp add: R1_def sample_def Cpt_init_def)

theorem C3_counterexample:
  "angle ext0 (R1 []) \<noteq> Inl ConfigurationError \<and>
   angle ext0 (R1 [(''dir'', ''north'')]) \<noteq> Inl ConfigurationError"
  by (simp add: angle_def dict_get_def R1_def sample_def Cpt_init_def)

subsection \<open>Nodes, coordinates and names\<close>


lemma K_init_Lnames:
  "K_init k S0 ty cid str ostr nds (l1 # l2 # rest) = Inr (c, S1) \<Longrightarrow>
   Lname1 c = Some l1 \<and> Lname2 c = Some l2 \<and> cls c = k"
  by (auto simp: K_init_def Cpt_init_def Let_def split: prod.splits if_splits option.splits)

text \<open>
  C2 (as amended). For a mutual coupling constructed with the names of two inductors:
  when either name is missing from the schematic's \<^verbatim>\<open>elements\<close> at the time of the lookup,
  \<^verbatim>\<open>dnodes\<close> fails with \<^verbatim>\<open>KeyError\<close>; when both are present, \<^verbatim>\<open>dnodes\<close> is the nodes of the
  first followed by the nodes of the second, four entries when each has its two nodes.
\<close>

theorem C2_K_dnodes:
  assumes "K_init k S0 ty cid str ostr nds (l1 # l2 # rest) = Inr (c, S1)"
    and "cls_family k = K"
  shows "(elements s l1 = None \<or> elements s l2 = None \<longrightarrow>
            dnodes (Some s) c = Inl KeyError) \<and>
         (elements s l1 = Some A \<and> elements s l2 = Some B \<longrightarrow>
            dnodes (Some s) c = Inr (nodes A @ nodes B) \<and>
            (length (nodes A) = 2 \<and> length (nodes B) = 2 \<longrightarrow>
               length (nodes A @ nodes B) = 4))"
proof -
  from K_init_Lnames [OF assms(1)]
  have n: "Lname1 c = Some l1" "Lname2 c = Some l2" "cls c = k" by simp_all
  show ?thesis
    using n assms(2)
    by (auto simp: dnodes_def K_dnodes_def bnd_def attr_def element_def split: option.splits)
qed

theorem C2_witness:
  "dnodes (Some sch0) K1 = Inl KeyError \<and>
   dnodes (Some sch_LL) K1 = Inr [''1'', ''2'', ''3'', ''4'']"
proof -
  have k: "K_init (written ''K'' K) (Some sch_LL) ''K'' ''1'' ''K1 L1 L2 0.5'' [] []
             [''L1'', ''L2'', ''0.5'']
           = Inr (K1, Some sch_LL)"
    by (simp add: K_init_def K1_def Cpt_init_def)
  have f: "cls_family (written ''K'' K) = K" by (simp add: written_def)
  show ?thesis
    using C2_K_dnodes [OF k f, of sch0 L1 L2] C2_K_dnodes [OF k f, of sch_LL L1 L2]
    by (simp add: sch0_def sch_LL_def L1_def L2_def sample_def Cpt_init_def)
qed

theorem C2_counterexample:
  "dnodes (Some sch0) K1 \<noteq> Inl ReferenceError"
  by (simp add: dnodes_def K_dnodes_def bnd_def attr_def element_def sch0_def K1_def
      Cpt_init_def written_def)

text \<open>
  C6. A wire with one of the options \<^verbatim>\<open>implicit\<close>, \<^verbatim>\<open>ground\<close>, \<^verbatim>\<open>sground\<close> reports the
  single point (0,0) and its first node as the only visible and drawn node, whatever its
  other options (the orientation among them); a wire without them reports the points
  (0,0), (1,0) and both nodes.
\<close>

theorem C6_wire_single_node:
  assumes "cls_family (cls c) = Wire" and "nodes c = [n1, n2]"
  shows "(dict_in ''implicit'' (opts c) \<or> dict_in ''ground'' (opts c)
            \<or> dict_in ''sground'' (opts c) \<longrightarrow>
            coords c = Inr [(0, 0)] \<and> vnodes c = Inr [n1] \<and> dnodes S c = Inr [n1]) \<and>
         (\<not> (dict_in ''implicit'' (opts c) \<or> dict_in ''ground'' (opts c)
            \<or> dict_in ''sground'' (opts c)) \<longrightarrow>
            coords c = Inr [(0, 0), (1, 0)] \<and> vnodes c = Inr [n1, n2]
            \<and> dnodes S c = Inr [n1, n2])"
  using assms
  by (simp add: coords_def Wire_coords_def vnodes_def dnodes_def implicit_wire_def)

theorem C6_witness:
  "coords (W1 [(''dir'', ''up''), (''ground'', [])]) = Inr [(0, 0)] \<and>
   vnodes (W1 [(''dir'', ''up''), (''ground'', [])]) = Inr [''1''] \<and>
   coords (W1 [(''dir'', ''up'')]) = Inr [(0, 0), (1, 0)] \<and>
   vnodes (W1 [(''dir'', ''up'')]) = Inr [''1'', ''0'']"
  using C6_wire_single_node [of "W1 [(''dir'', ''up''), (''ground'', [])]" "''1''" "''0''" None]
    C6_wire_single_node [of "W1 [(''dir'', ''up'')]" "''1''" "''0''" None]
  by (simp add: W1_def sample_def Cpt_init_def defcpt_def dict_in_def)




text \<open>
  C10 (as amended). A component constructed with the empty id and an owning schematic has
  the name type + "@" + the text of the incremented counter, while its \<^verbatim>\<open>id\<close> stays
  empty, so the name differs from type + id. Constructed with the empty id and no
  schematic, nothing is generated: the name is the type, which equals type + id.
\<close>

theorem C10_auto_name:
  "name (fst (Cpt_init k (Some s) ty [] str ostr nds as)) = ty @ ''@'' @ fst (anon s ty) \<and>
   cpt_id (fst (Cpt_init k (Some s) ty [] str ostr nds as)) = [] \<and>
   name (fst (Cpt_init k (Some s) ty [] str ostr nds as))
     \<noteq> cpt_type (fst (Cpt_init k (Some s) ty [] str ostr nds as))
         @ cpt_id (fst (Cpt_init k (Some s) ty [] str ostr nds as)) \<and>
   name (fst (Cpt_init k None ty [] str ostr nds as)) = ty \<and>
   cpt_id (fst (Cpt_init k None ty [] str ostr nds as)) = []"
  by (simp add: Cpt_init_def Let_def split: prod.splits)

theorem C10_counterexample:
  "name (fst (Cpt_init (defcpt ''R'' OnePort (Some ''R'')) None ''R'' [] ''R 1 2'' [] [''1'', ''2''] []))
     = ''R'' \<and>
   name (fst (Cpt_init (defcpt ''R'' OnePort (Some ''R'')) None ''R'' [] ''R 1 2'' [] [''1'', ''2''] []))
     = cpt_type (fst (Cpt_init (defcpt ''R'' OnePort (Some ''R'')) None ''R'' [] ''R 1 2'' []
         [''1'', ''2''] []))
       @ cpt_id (fst (Cpt_init (defcpt ''R'' OnePort (Some ''R'')) None ''R'' [] ''R 1 2'' []
         [''1'', ''2''] []))"
  by (simp add: Cpt_init_def)



theorem C10_witness:
  "name (fst (Cpt_init (defcpt ''R'' OnePort (Some ''R'')) (Some sch0) ''R'' [] ''R 1 2'' []
      [''1'', ''2''] [])) = ''R@1''"
  using C10_auto_name [of "defcpt ''R'' OnePort (Some ''R'')" sch0 "''R''" "''R 1 2''" "[]"
      "[''1'', ''2'']" "[]"]
  by (simp add: anon_def sch0_def str_int_def str_nat.simps digit_char_values)




subsection \<open>Numbering of anonymous components\<close>












subsection \<open>Links and placements\<close>





















subsection \<open>Node order of a one-port\<close>







subsection \<open>Labels of a one-port\<close>






lemma side_cases: "sides flip = (lp, vp) \<Longrightarrow> (lp = ''^'' \<and> vp = ''_'') \<or> (lp = ''_'' \<and> vp = ''^'')"
  by (auto simp: sides_def split: if_splits)










lemma draw_R1:
  "fst (OnePort_draw ext0 Map.empty (Some sch_12)
          (labelled (R1 [(''dir'', ''right'')]) ''R1'' ''5'')) =
   Inr (''  '' @ bs @ ''draw (1) to [align=right,R,l_={R1=5},,,,*-*,n=R1] (2);'' @ nl)"
  by (simp add: OnePort_draw_def dnodes_def vnodes_def unpack2_def bnd_def attr_def
      label_side_def horizontal_def vertical_def dir_is_def dict_get_def sides_def
      rewritten_def rewrite_opts_def dict_rename_def sch_node_def sch_12_def sch0_def
      default_label_def kw_get_def label_str_def opts_str_def label_keys_def all_args_def
      args_str_def voltage_str_def current_str_def voltage_keys_def current_keys_def
      misc_keys_def node_str_def dot_node_def tikz_of_def draw_cmd_def labelled_def R1_def
      sample_def Cpt_init_def defcpt_def sources_def Let_def variable_def dict_in_def
      nl_def bs_def)






end
